theory Spec2Isabelle
  imports Main
begin

section \<open>Coverage-guided dead-code elimination: the Babel plugin of \<^verbatim>\<open>build.js\<close>\<close>

subsection \<open>Source locations\<close>

text \<open>
  Babel nodes and Istanbul descriptors both carry locations of the shape
  \<^verbatim>\<open>{start: {line, column}, end: {line, column}}\<close>. The field \<^verbatim>\<open>end\<close> is written
  \<open>end'\<close>, since \<^verbatim>\<open>end\<close> is a keyword here.
\<close>

record position =
  line :: nat
  column :: nat

record source_location =
  start :: position
  end' :: position

subsection \<open>The coverage report\<close>

text \<open>
  An entry of \<^verbatim>\<open>fnMap\<close>. The code reads \<^verbatim>\<open>fn.name\<close> and \<^verbatim>\<open>fn.loc\<close>; the name is tested
  for truthiness, so it is optional here (\<open>None\<close>: absent, \<^verbatim>\<open>undefined\<close> or \<^verbatim>\<open>null\<close>), and
  the empty string is a name that is present and falsy. \<^verbatim>\<open>fn.loc\<close> is dereferenced
  without a test, so a descriptor always has one.
\<close>

record fn_descriptor =
  name :: "string option"
  fn_loc :: source_location

text \<open>
  The report of one file, \<^verbatim>\<open>{fnMap, f, statementMap, s}\<close>. \<^verbatim>\<open>fnMap\<close> and \<^verbatim>\<open>statementMap\<close>
  are the key/value pairs of the object in the order in which \<^verbatim>\<open>for ... in\<close> enumerates
  them; an entry of \<^verbatim>\<open>statementMap\<close> is itself a location. The hit-count tables \<^verbatim>\<open>f\<close> and
  \<^verbatim>\<open>s\<close> are looked up by key (\<open>None\<close>: \<^verbatim>\<open>undefined\<close>); they are written \<open>f'\<close> and \<open>s'\<close>.
\<close>

record coverage =
  fnMap :: "(nat \<times> fn_descriptor) list"
  f' :: "nat \<Rightarrow> nat option"
  statementMap :: "(nat \<times> source_location) list"
  s' :: "nat \<Rightarrow> nat option"

subsection \<open>AST nodes\<close>

text \<open>
  What every Babel node has: its \<^verbatim>\<open>type\<close> and an optional \<^verbatim>\<open>loc\<close> (a node made by a
  builder has none). Everything else of a node is the extension of the record.
\<close>

record node =
  node_type :: string
  loc :: "source_location option"

record identifier_node =
  ident_name :: string

datatype 's block = Block (block_loc: "source_location option") (block_body: "'s list")

text \<open>
  A function declaration or function expression: \<^verbatim>\<open>id\<close> (written \<open>id'\<close>) is an
  \<^verbatim>\<open>Identifier\<close> node or \<^verbatim>\<open>null\<close>.
\<close>

record ('p, 's) function_node = node +
  id' :: "identifier_node option"
  params :: "'p list"
  body :: "'s block"
  generator :: bool
  async :: bool

subsection \<open>The location matchers\<close>

text \<open>JavaScript truthiness of a value that is a string, \<^verbatim>\<open>undefined\<close> or \<^verbatim>\<open>null\<close>.\<close>

definition truthy :: "string option \<Rightarrow> bool" where
  "truthy v = (case v of None \<Rightarrow> False | Some str \<Rightarrow> str \<noteq> [])"

text \<open>
  \<^verbatim>\<open>isSameFunction(nodeA, nodeB)\<close>. The callers use the result only as a condition, so
  the model returns its truthiness. Each \<^verbatim>\<open>&&\<close> of the source is one test below, in
  the source's order.
\<close>

definition isSameFunction ::
  "('p, 's) function_node option \<Rightarrow> fn_descriptor option \<Rightarrow> bool" where
  "isSameFunction nodeA nodeB =
     (case nodeA of None \<Rightarrow> False | Some a \<Rightarrow>
      (case loc a of None \<Rightarrow> False | Some la \<Rightarrow>
       (case nodeB of None \<Rightarrow> False | Some b \<Rightarrow>
          truthy (name b) \<and>
          line (start la) = line (start (fn_loc b)) \<and>
          ((case id' a of None \<Rightarrow> False | Some i \<Rightarrow> Some (ident_name i) = name b) \<or>
           line (end' la) = line (end' (fn_loc b))))))"

text \<open>\<^verbatim>\<open>isSameStatement(locA, locB)\<close>, likewise.\<close>

definition isSameStatement ::
  "source_location option \<Rightarrow> source_location option \<Rightarrow> bool" where
  "isSameStatement locA locB =
     (case locA of None \<Rightarrow> False | Some la \<Rightarrow>
      (case locB of None \<Rightarrow> False | Some lb \<Rightarrow>
         line (start la) = line (start lb) \<and>
         line (end' la) = line (end' lb) \<and>
         column (start la) = column (start lb)))"

subsection \<open>Paths, visitor results and node builders\<close>

text \<open>
  A visitor receives a path. It reads \<^verbatim>\<open>path.node\<close> and \<^verbatim>\<open>path.parent.type\<close>, and it
  acts on the tree through \<^verbatim>\<open>path.replaceWith\<close> and \<^verbatim>\<open>path.remove\<close>, or by assigning
  to a field of \<^verbatim>\<open>path.node\<close>. A visitor's result is what it did: \<open>Keep n\<close> when it
  returned without replacing or removing, \<open>n\<close> being \<^verbatim>\<open>path.node\<close> as the visitor left
  it; \<open>ReplaceWith n\<close> for \<^verbatim>\<open>path.replaceWith(n)\<close>; \<open>Remove\<close> for \<^verbatim>\<open>path.remove()\<close>.
\<close>

record 'n path =
  node :: 'n
  parent_type :: string

datatype 'n visit = Keep 'n | ReplaceWith 'n | Remove

text \<open>
  The builders \<^verbatim>\<open>t.blockStatement\<close>, \<^verbatim>\<open>t.functionDeclaration\<close> and
  \<^verbatim>\<open>t.functionExpression\<close> of Babel: a built node has no \<^verbatim>\<open>loc\<close>, and a built function
  is neither a generator nor async.
\<close>

definition blockStatement :: "'s list \<Rightarrow> 's block" where
  "blockStatement stmts = Block None stmts"

definition functionDeclaration ::
  "identifier_node option \<Rightarrow> 'p list \<Rightarrow> 's block \<Rightarrow> ('p, 's) function_node" where
  "functionDeclaration i ps b =
     \<lparr>node_type = ''FunctionDeclaration'', loc = None,
      id' = i, params = ps, body = b, generator = False, async = False\<rparr>"

definition functionExpression ::
  "identifier_node option \<Rightarrow> 'p list \<Rightarrow> 's block \<Rightarrow> ('p, 's) function_node" where
  "functionExpression i ps b =
     \<lparr>node_type = ''FunctionExpression'', loc = None,
      id' = i, params = ps, body = b, generator = False, async = False\<rparr>"

subsection \<open>The visitors of \<^verbatim>\<open>removeUnusedCode\<close>\<close>

text \<open>
  The loop \<^verbatim>\<open>for (const fnNum in coverage.fnMap)\<close> of the \<^verbatim>\<open>FunctionDeclaration\<close>
  visitor, over the entries that are left: both \<^verbatim>\<open>continue\<close>s go on with the next
  entry, \<^verbatim>\<open>replaceWith\<close> and \<^verbatim>\<open>return\<close> end the loop, and falling off the end leaves the
  node as it is.
\<close>

fun FunctionDeclaration_for ::
  "coverage \<Rightarrow> (nat \<times> fn_descriptor) list \<Rightarrow> ('p, 's) function_node
     \<Rightarrow> ('p, 's) function_node visit" where
  "FunctionDeclaration_for coverage [] n = Keep n"
| "FunctionDeclaration_for coverage ((fnNum, fn) # rest) n =
     (if \<not> isSameFunction (Some n) (Some fn) then FunctionDeclaration_for coverage rest n
      else let isDeadCode = (f' coverage fnNum = Some 0) in
        if \<not> isDeadCode then FunctionDeclaration_for coverage rest n
        else ReplaceWith (functionDeclaration (id' n) [] (blockStatement [])))"

text \<open>
  The \<^verbatim>\<open>FunctionDeclaration\<close> visitor. \<^verbatim>\<open>coverageForFiles[this.filename]\<close> is a lookup
  that may find nothing.
\<close>

definition FunctionDeclaration ::
  "(string \<Rightarrow> coverage option) \<Rightarrow> string \<Rightarrow> ('p, 's) function_node path
     \<Rightarrow> ('p, 's) function_node visit" where
  "FunctionDeclaration coverageForFiles this_filename path =
     (case coverageForFiles this_filename of
        None \<Rightarrow> Keep (node path)
      | Some coverage \<Rightarrow> FunctionDeclaration_for coverage (fnMap coverage) (node path))"

text \<open>
  The first statement of the \<^verbatim>\<open>FunctionExpression\<close> visitor:
  \<^verbatim>\<open>if (path.node.id && path.parent.type === 'AssignmentExpression') path.node.id = null\<close>.
  The result is \<^verbatim>\<open>path.node\<close> after it.
\<close>

definition stripAssignedName :: "('p, 's) function_node path \<Rightarrow> ('p, 's) function_node" where
  "stripAssignedName path =
     (if id' (node path) \<noteq> None \<and> parent_type path = ''AssignmentExpression''
      then (node path)\<lparr>id' := None\<rparr>
      else node path)"

text \<open>The loop of the \<^verbatim>\<open>FunctionExpression\<close> visitor; its stub is anonymous.\<close>

fun FunctionExpression_for ::
  "coverage \<Rightarrow> (nat \<times> fn_descriptor) list \<Rightarrow> ('p, 's) function_node
     \<Rightarrow> ('p, 's) function_node visit" where
  "FunctionExpression_for coverage [] n = Keep n"
| "FunctionExpression_for coverage ((fnNum, fn) # rest) n =
     (if \<not> isSameFunction (Some n) (Some fn) then FunctionExpression_for coverage rest n
      else let isDeadCode = (f' coverage fnNum = Some 0) in
        if \<not> isDeadCode then FunctionExpression_for coverage rest n
        else ReplaceWith (functionExpression None [] (blockStatement [])))"

text \<open>
  The \<^verbatim>\<open>FunctionExpression\<close> visitor: the name is stripped first, whatever the coverage
  says, and the loop sees the node without it.
\<close>

definition FunctionExpression ::
  "(string \<Rightarrow> coverage option) \<Rightarrow> string \<Rightarrow> ('p, 's) function_node path
     \<Rightarrow> ('p, 's) function_node visit" where
  "FunctionExpression coverageForFiles this_filename path =
     (let n = stripAssignedName path in
      case coverageForFiles this_filename of
        None \<Rightarrow> Keep n
      | Some coverage \<Rightarrow> FunctionExpression_for coverage (fnMap coverage) n)"

text \<open>
  The loop of the \<^verbatim>\<open>Statement\<close> visitor. This visitor tests \<^verbatim>\<open>path.node\<close> before each
  use, so its path holds an optional node. A key that \<^verbatim>\<open>for ... in\<close> yields is a
  string, so \<^verbatim>\<open>typeof sNum === 'undefined'\<close> is false at every entry. With no node no
  entry is skipped for its location, and \<^verbatim>\<open>path.remove()\<close> is not called.
\<close>

fun Statement_for ::
  "coverage \<Rightarrow> (nat \<times> source_location) list \<Rightarrow> 'z node_scheme option
     \<Rightarrow> 'z node_scheme option visit" where
  "Statement_for coverage [] pn = Keep pn"
| "Statement_for coverage ((sNum, s) # rest) pn =
     (if (case pn of None \<Rightarrow> False | Some n \<Rightarrow> \<not> isSameStatement (loc n) (Some s))
      then Statement_for coverage rest pn
      else let isDeadCode = (s' coverage sNum = Some 0) in
        if \<not> isDeadCode then Statement_for coverage rest pn
        else (case pn of None \<Rightarrow> Keep pn | Some n \<Rightarrow> Remove))"

definition Statement ::
  "(string \<Rightarrow> coverage option) \<Rightarrow> string \<Rightarrow> 'z node_scheme option path
     \<Rightarrow> 'z node_scheme option visit" where
  "Statement coverageForFiles this_filename path =
     (case coverageForFiles this_filename of
        None \<Rightarrow> Keep (node path)
      | Some coverage \<Rightarrow> Statement_for coverage (statementMap coverage) (node path))"

subsection \<open>Where a statement sits, and what Babel does there\<close>

text \<open>
  The traversal, the order of the handlers and \<^verbatim>\<open>path.remove()\<close> are Babel's, not the
  plugin's. This much of them is modelled here.

  \<^item> A statement is a function declaration, some other statement, or the empty block
    \<^verbatim>\<open>{type: "BlockStatement", body: []}\<close> that Babel itself builds.
  \<^item> A statement sits in a slot: it is an element of the \<^verbatim>\<open>body\<close> array of a block, the
    \<^verbatim>\<open>consequent\<close> of an \<^verbatim>\<open>if\<close> statement, or the \<^verbatim>\<open>body\<close> of a \<^verbatim>\<open>while\<close> loop. Other
    slots are not modelled.
  \<^item> \<^verbatim>\<open>path.remove()\<close> deletes an element of an array from the array. In place of the
    consequent of an \<^verbatim>\<open>if\<close> statement or the body of a loop it puts an empty block.
  \<^item> \<^verbatim>\<open>Statement\<close> is an alias that covers function declarations. On a node of type
    \<^verbatim>\<open>FunctionDeclaration\<close> the \<^verbatim>\<open>FunctionDeclaration\<close> handler runs first, and the
    \<^verbatim>\<open>Statement\<close> handler runs after it unless the node was replaced. On any other
    statement only the \<^verbatim>\<open>Statement\<close> handler runs.
  \<^item> A node that \<^verbatim>\<open>replaceWith\<close> or a removal put in place is queued and visited in its
    turn. Such a node has no \<^verbatim>\<open>loc\<close>, and the handlers leave it as it is
    (\<open>stub_is_left\<close> and \<open>emptyBlock_is_left\<close> below); the model ends at the
    replacement.
  \<^item> Inside a statement that is left the traversal goes on; the model does not follow
    it there.
\<close>

datatype slot = BodyElement | IfConsequent | WhileBody

datatype ('p, 's, 'z) statement =
    Declaration "('p, 's) function_node"
  | Other "'z node_scheme"
  | EmptyBlock

definition parentType :: "slot \<Rightarrow> string" where
  "parentType sl =
     (case sl of BodyElement \<Rightarrow> ''BlockStatement''
      | IfConsequent \<Rightarrow> ''IfStatement''
      | WhileBody \<Rightarrow> ''WhileStatement'')"

text \<open>The node of the empty block, as far as the handlers read it.\<close>

definition emptyBlock :: node where
  "emptyBlock = \<lparr>node_type = ''BlockStatement'', loc = None\<rparr>"

text \<open>What a slot holds after \<^verbatim>\<open>path.remove()\<close>: nothing, or the empty block.\<close>

definition path_remove :: "slot \<Rightarrow> ('p, 's, 'z) statement option" where
  "path_remove sl =
     (case sl of BodyElement \<Rightarrow> None
      | IfConsequent \<Rightarrow> Some EmptyBlock
      | WhileBody \<Rightarrow> Some EmptyBlock)"

text \<open>What a slot holds after the \<^verbatim>\<open>Statement\<close> handler has run on its node.\<close>

fun afterStatement ::
  "slot \<Rightarrow> ('n \<Rightarrow> ('p, 's, 'z) statement) \<Rightarrow> 'n option visit
     \<Rightarrow> ('p, 's, 'z) statement option" where
  "afterStatement sl wrap Remove = path_remove sl"
| "afterStatement sl wrap (Keep pn) = map_option wrap pn"
| "afterStatement sl wrap (ReplaceWith pn) = map_option wrap pn"

text \<open>One visit of a statement in its slot: what the slot holds afterwards.\<close>

fun visitStatement ::
  "(string \<Rightarrow> coverage option) \<Rightarrow> string \<Rightarrow> slot \<Rightarrow> ('p, 's, 'z) statement
     \<Rightarrow> ('p, 's, 'z) statement option" where
  "visitStatement coverageForFiles this_filename sl (Declaration d) =
     (case FunctionDeclaration coverageForFiles this_filename
             \<lparr>node = d, parent_type = parentType sl\<rparr> of
        ReplaceWith r \<Rightarrow> Some (Declaration r)
      | Remove \<Rightarrow> path_remove sl
      | Keep d' \<Rightarrow>
          afterStatement sl Declaration
            (Statement coverageForFiles this_filename
               \<lparr>node = Some d', parent_type = parentType sl\<rparr>))"
| "visitStatement coverageForFiles this_filename sl (Other n) =
     afterStatement sl Other
       (Statement coverageForFiles this_filename
          \<lparr>node = Some n, parent_type = parentType sl\<rparr>)"
| "visitStatement coverageForFiles this_filename sl EmptyBlock =
     afterStatement sl (\<lambda>b. EmptyBlock)
       (Statement coverageForFiles this_filename
          \<lparr>node = Some emptyBlock, parent_type = parentType sl\<rparr>)"

text \<open>The elements of a block's \<^verbatim>\<open>body\<close>, each visited once, in order.\<close>

fun visitBlockBody ::
  "(string \<Rightarrow> coverage option) \<Rightarrow> string \<Rightarrow> ('p, 's, 'z) statement list
     \<Rightarrow> ('p, 's, 'z) statement list" where
  "visitBlockBody coverageForFiles this_filename [] = []"
| "visitBlockBody coverageForFiles this_filename (st # rest) =
     (case visitStatement coverageForFiles this_filename BodyElement st of
        None \<Rightarrow> visitBlockBody coverageForFiles this_filename rest
      | Some st' \<Rightarrow> st' # visitBlockBody coverageForFiles this_filename rest)"

text \<open>
  To state the outcome: a node has a dead entry when some descriptor of the table
  satisfies the matcher for it and has a hit count of 0. An element is deleted from a
  body when it has a dead statement entry, unless it is a declaration with a dead
  function entry; such a declaration is left as its stub, and every other element that
  is not deleted is left as it is.
\<close>

definition hasDeadStatementEntry :: "coverage \<Rightarrow> 'z node_scheme \<Rightarrow> bool" where
  "hasDeadStatementEntry coverage n =
     (\<exists>(sNum, s) \<in> set (statementMap coverage).
        isSameStatement (loc n) (Some s) \<and> s' coverage sNum = Some 0)"

definition hasDeadFunctionEntry :: "coverage \<Rightarrow> ('p, 's) function_node \<Rightarrow> bool" where
  "hasDeadFunctionEntry coverage d =
     (\<exists>(fnNum, fn) \<in> set (fnMap coverage).
        isSameFunction (Some d) (Some fn) \<and> f' coverage fnNum = Some 0)"

fun deletedFromBody :: "coverage \<Rightarrow> ('p, 's, 'z) statement \<Rightarrow> bool" where
  "deletedFromBody coverage (Declaration d) =
     (\<not> hasDeadFunctionEntry coverage d \<and> hasDeadStatementEntry coverage d)"
| "deletedFromBody coverage (Other n) = hasDeadStatementEntry coverage n"
| "deletedFromBody coverage EmptyBlock = False"

fun leftInBody :: "coverage \<Rightarrow> ('p, 's, 'z) statement \<Rightarrow> ('p, 's, 'z) statement" where
  "leftInBody coverage (Declaration d) =
     (if hasDeadFunctionEntry coverage d
      then Declaration (functionDeclaration (id' d) [] (blockStatement []))
      else Declaration d)"
| "leftInBody coverage (Other n) = Other n"
| "leftInBody coverage EmptyBlock = EmptyBlock"

subsection \<open>The first matching descriptor\<close>

text \<open>
  The first entry, in scan order, whose descriptor the matcher accepts for a node. The
  code has no such function; these two state what "the first satisfying descriptor" is,
  to compare the loops with it.
\<close>

fun firstMatchingFunction ::
  "('p, 's) function_node \<Rightarrow> (nat \<times> fn_descriptor) list \<Rightarrow> (nat \<times> fn_descriptor) option" where
  "firstMatchingFunction n [] = None"
| "firstMatchingFunction n ((fnNum, fn) # rest) =
     (if isSameFunction (Some n) (Some fn) then Some (fnNum, fn)
      else firstMatchingFunction n rest)"

fun firstMatchingStatement ::
  "'z node_scheme \<Rightarrow> (nat \<times> source_location) list \<Rightarrow> (nat \<times> source_location) option" where
  "firstMatchingStatement n [] = None"
| "firstMatchingStatement n ((sNum, s) # rest) =
     (if isSameStatement (loc n) (Some s) then Some (sNum, s)
      else firstMatchingStatement n rest)"

subsection \<open>The build script\<close>

text \<open>
  What the script does to the outside, in order: files written and console output. The
  success message is built from the two lengths.
\<close>

datatype 'err event =
    WriteFile string string
  | LogSucceeded nat nat
  | Log string
  | Warn string
  | Error 'err

text \<open>
  The collaborators of the script. Running a program (\<^verbatim>\<open>new vm.Script(code)\<close>, then
  \<^verbatim>\<open>script.runInNewContext(context)\<close>) throws or leaves a context; \<open>coverage_of\<close> is
  \<^verbatim>\<open>context.__coverage__\<close>; \<open>precompile\<close> is the call of
  \<^verbatim>\<open>context.module.exports.precompile\<close>, which throws, or returns a value and leaves
  the context changed (the counters of the coverage object are in it). \<open>instrument\<close> and
  \<open>transform\<close> are the two \<^verbatim>\<open>babel.transform(...).code\<close>, the second with the plugin
  \<^verbatim>\<open>removeUnusedCode\<close> reading \<^verbatim>\<open>coverageForFiles\<close>; \<open>minify\<close> is
  \<^verbatim>\<open>Terser.minify(...).code\<close>. Reading, transforming, minifying and writing are taken to
  succeed: only the execution of a program is modelled as able to throw.
\<close>

record ('err, 'ctx) collaborators =
  readFileSync :: "string \<Rightarrow> string"
  instrument :: "string \<Rightarrow> string"
  runInNewContext :: "string \<Rightarrow> 'err + 'ctx"
  coverage_of :: "'ctx \<Rightarrow> string \<Rightarrow> coverage option"
  precompile :: "'ctx \<Rightarrow> string \<Rightarrow> 'err + (string \<times> 'ctx)"
  transform :: "(string \<Rightarrow> coverage option) \<Rightarrow> string \<Rightarrow> string"
  minify :: "string \<Rightarrow> string"

text \<open>The constant \<^verbatim>\<open>test\<close>, a template literal with a line break at each end.\<close>

definition test :: string where
  \<open>test =
     [CHR 0x0A] @ ''  module.exports.precompile('' @ [CHR 0x27] @
     ''{{#component "test-component" someProperty=this.attrs.someProperty}}'' @
     ''{{this.blockContent}}{{/component}}'' @ [CHR 0x27] @ '');'' @ [CHR 0x0A]\<close>

text \<open>The constant \<^verbatim>\<open>filename\<close>, from \<^verbatim>\<open>__dirname\<close>.\<close>

definition filename :: "string \<Rightarrow> string" where
  "filename dirname = dirname @ ''/node_modules/ember-source/dist/ember-template-compiler.js''"

text \<open>
  The \<^verbatim>\<open>try\<close> block and its \<^verbatim>\<open>catch\<close>: the events it adds. An exception of either call
  inside ends in \<^verbatim>\<open>console.error(err)\<close>.
\<close>

definition validate ::
  "('err, 'ctx) collaborators \<Rightarrow> string \<Rightarrow> string \<Rightarrow> string \<Rightarrow> 'err event list" where
  "validate c trimmedCode templateCompilerCode beforeTestOutput =
     (case runInNewContext c trimmedCode of
        Inl err \<Rightarrow> [Error err]
      | Inr context \<Rightarrow>
         (case precompile c context test of
            Inl err \<Rightarrow> [Error err]
          | Inr (afterTestOutput, context') \<Rightarrow>
              if afterTestOutput = beforeTestOutput
              then [LogSucceeded (length trimmedCode) (length templateCompilerCode),
                    Log afterTestOutput]
              else [Warn ''Output from trimmed code different from original!'',
                    Log (''original: '' @ beforeTestOutput),
                    Log (''after   : '' @ afterTestOutput)]))"

text \<open>
  The script from top to bottom. The result is the events in order, and the exception
  that ended the run when one was not caught. The run of the instrumented program and
  the call \<^verbatim>\<open>precompile(test)\<close> that gives \<^verbatim>\<open>beforeTestOutput\<close> stand outside the
  \<^verbatim>\<open>try\<close> block. The plugin reads the coverage object when the transform runs, that
  is, as the call of \<^verbatim>\<open>precompile\<close> left it.
\<close>

definition build ::
  "('err, 'ctx) collaborators \<Rightarrow> string \<Rightarrow> 'err event list \<times> 'err option" where
  "build c dirname =
     (let templateCompilerCode = readFileSync c (filename dirname);
          written1 = [WriteFile ''original.js'' templateCompilerCode];
          instrumentedTemplateCompiler = instrument c templateCompilerCode;
          written2 = written1 @ [WriteFile ''instrumented.js'' instrumentedTemplateCompiler]
      in case runInNewContext c instrumentedTemplateCompiler of
           Inl err \<Rightarrow> (written2, Some err)
         | Inr context \<Rightarrow>
            (case precompile c context test of
               Inl err \<Rightarrow> (written2, Some err)
             | Inr (beforeTestOutput, context') \<Rightarrow>
                 let trimmedCode = transform c (coverage_of c context') templateCompilerCode;
                     written3 = written2 @ [WriteFile ''trimmed.js'' trimmedCode];
                     validated = written3 @
                       validate c trimmedCode templateCompilerCode beforeTestOutput;
                     uglifiedCode = minify c trimmedCode
                 in (validated @ [WriteFile ''uglified.js'' uglifiedCode], None)))"

section \<open>Example inputs\<close>

text \<open>
  A function \<^verbatim>\<open>helper\<close> on lines 3 to 5 that was never called: the declaration, its
  descriptor, and a report that holds only this function.
\<close>

definition span_3_5 :: source_location where
  "span_3_5 = \<lparr>start = \<lparr>line = 3, column = 0\<rparr>, end' = \<lparr>line = 5, column = 1\<rparr>\<rparr>"

definition helperDeclaration :: "(string, string) function_node" where
  "helperDeclaration =
     \<lparr>node_type = ''FunctionDeclaration'', loc = Some span_3_5,
      id' = Some \<lparr>ident_name = ''helper''\<rparr>, params = [''x''],
      body = Block (Some \<lparr>start = \<lparr>line = 3, column = 19\<rparr>, end' = \<lparr>line = 5, column = 1\<rparr>\<rparr>)
               [''return x + 1;''],
      generator = False, async = False\<rparr>"

definition helperDescriptor :: fn_descriptor where
  "helperDescriptor = \<lparr>name = Some ''helper'', fn_loc = span_3_5\<rparr>"

definition helperNeverCalled :: coverage where
  "helperNeverCalled =
     \<lparr>fnMap = [(0, helperDescriptor)], f' = [0 \<mapsto> 0],
      statementMap = [(0, \<lparr>start = \<lparr>line = 4, column = 2\<rparr>, end' = \<lparr>line = 4, column = 15\<rparr>\<rparr>)],
      s' = [0 \<mapsto> 0]\<rparr>"

text \<open>The reports of a run in which only \<^verbatim>\<open>ember-template-compiler.js\<close> was observed.\<close>

definition reportFor :: "coverage \<Rightarrow> string \<Rightarrow> coverage option" where
  "reportFor cov = [''ember-template-compiler.js'' \<mapsto> cov]"

definition noReports :: "string \<Rightarrow> coverage option" where
  "noReports = Map.empty"

text \<open>
  Two anonymous callbacks on line 7, \<^verbatim>\<open>run(function () { a(); }, function () { b(); });\<close>.
  The first was called once, the second never. Both descriptors lie on line 7 from
  start to end, so the matcher accepts either of them for either callback.
\<close>

definition firstCallback :: "(string, string) function_node" where
  "firstCallback =
     \<lparr>node_type = ''FunctionExpression'',
      loc = Some \<lparr>start = \<lparr>line = 7, column = 4\<rparr>, end' = \<lparr>line = 7, column = 25\<rparr>\<rparr>,
      id' = None, params = [],
      body = Block (Some \<lparr>start = \<lparr>line = 7, column = 16\<rparr>, end' = \<lparr>line = 7, column = 25\<rparr>\<rparr>)
               [''a();''],
      generator = False, async = False\<rparr>"

definition anonymous_0 :: fn_descriptor where
  "anonymous_0 =
     \<lparr>name = Some ''(anonymous_0)'',
      fn_loc = \<lparr>start = \<lparr>line = 7, column = 16\<rparr>, end' = \<lparr>line = 7, column = 25\<rparr>\<rparr>\<rparr>"

definition anonymous_1 :: fn_descriptor where
  "anonymous_1 =
     \<lparr>name = Some ''(anonymous_1)'',
      fn_loc = \<lparr>start = \<lparr>line = 7, column = 39\<rparr>, end' = \<lparr>line = 7, column = 48\<rparr>\<rparr>\<rparr>"

definition twoCallbacks :: coverage where
  "twoCallbacks =
     \<lparr>fnMap = [(0, anonymous_0), (1, anonymous_1)], f' = [0 \<mapsto> 1, 1 \<mapsto> 0],
      statementMap = [], s' = Map.empty\<rparr>"

text \<open>
  An anonymous function on lines 3 to 5, and a descriptor of the same lines whose name
  is absent.
\<close>

definition anonymousFunction :: "(string, string) function_node" where
  "anonymousFunction =
     \<lparr>node_type = ''FunctionExpression'', loc = Some span_3_5,
      id' = None, params = [], body = Block None [], generator = False, async = False\<rparr>"

definition namelessDescriptor :: fn_descriptor where
  "namelessDescriptor = \<lparr>name = None, fn_loc = span_3_5\<rparr>"

text \<open>
  A named function expression on the right of an assignment, \<^verbatim>\<open>exports.run = function run() {}\<close>
  on line 9, and the same node without a location.
\<close>

definition assignedRun :: "(string, string) function_node path" where
  "assignedRun =
     \<lparr>node =
        \<lparr>node_type = ''FunctionExpression'',
         loc = Some \<lparr>start = \<lparr>line = 9, column = 14\<rparr>, end' = \<lparr>line = 9, column = 31\<rparr>\<rparr>,
         id' = Some \<lparr>ident_name = ''run''\<rparr>, params = [], body = Block None [],
         generator = False, async = False\<rparr>,
      parent_type = ''AssignmentExpression''\<rparr>"

definition assignedRunNoLoc :: "(string, string) function_node path" where
  "assignedRunNoLoc = assignedRun\<lparr>node := (node assignedRun)\<lparr>loc := None\<rparr>\<rparr>"

text \<open>
  A block of three statements: \<^verbatim>\<open>init(options);\<close> on line 10, never executed, the
  declaration of \<^verbatim>\<open>helper\<close>, never called, and \<^verbatim>\<open>return;\<close> on line 11, executed three
  times.
\<close>

definition statement_10 :: "string node_scheme" where
  "statement_10 =
     \<lparr>node_type = ''ExpressionStatement'',
      loc = Some \<lparr>start = \<lparr>line = 10, column = 2\<rparr>, end' = \<lparr>line = 10, column = 20\<rparr>\<rparr>,
      \<dots> = ''init(options);''\<rparr>"

definition statement_11 :: "string node_scheme" where
  "statement_11 =
     \<lparr>node_type = ''ReturnStatement'',
      loc = Some \<lparr>start = \<lparr>line = 11, column = 2\<rparr>, end' = \<lparr>line = 11, column = 9\<rparr>\<rparr>,
      \<dots> = ''return;''\<rparr>"

definition line10Dead :: coverage where
  "line10Dead =
     \<lparr>fnMap = [(0, helperDescriptor)], f' = [0 \<mapsto> 0],
      statementMap =
        [(0, \<lparr>start = \<lparr>line = 10, column = 2\<rparr>, end' = \<lparr>line = 10, column = 20\<rparr>\<rparr>),
         (1, \<lparr>start = \<lparr>line = 11, column = 2\<rparr>, end' = \<lparr>line = 11, column = 9\<rparr>\<rparr>)],
      s' = [0 \<mapsto> 0, 1 \<mapsto> 3]\<rparr>"

definition threeStatements :: "(string, string, string) statement list" where
  "threeStatements = [Other statement_10, Declaration helperDeclaration, Other statement_11]"

text \<open>
  \<^verbatim>\<open>if (ready) start();\<close> on line 12, with no braces. The \<^verbatim>\<open>if\<close> statement was executed
  once and its consequent \<^verbatim>\<open>start();\<close> never: the report has one entry for each.
\<close>

definition consequent_12 :: "string node_scheme" where
  "consequent_12 =
     \<lparr>node_type = ''ExpressionStatement'',
      loc = Some \<lparr>start = \<lparr>line = 12, column = 13\<rparr>, end' = \<lparr>line = 12, column = 21\<rparr>\<rparr>,
      \<dots> = ''start();''\<rparr>"

definition ifNeverTaken :: coverage where
  "ifNeverTaken =
     \<lparr>fnMap = [], f' = Map.empty,
      statementMap =
        [(0, \<lparr>start = \<lparr>line = 12, column = 2\<rparr>, end' = \<lparr>line = 12, column = 21\<rparr>\<rparr>),
         (1, \<lparr>start = \<lparr>line = 12, column = 13\<rparr>, end' = \<lparr>line = 12, column = 21\<rparr>\<rparr>)],
      s' = [0 \<mapsto> 1, 1 \<mapsto> 0]\<rparr>"

text \<open>
  Collaborators for the script. A context is the code that was run. In the first set
  every program runs, and the trimmed program throws when \<^verbatim>\<open>precompile\<close> is called;
  in the second the instrumented program throws there.
\<close>

definition trimmedThrows :: "(string, string) collaborators" where
  "trimmedThrows =
     \<lparr>readFileSync = (\<lambda>file. ''original''),
      instrument = (\<lambda>code. ''instrumented''),
      runInNewContext = (\<lambda>code. Inr code),
      coverage_of = (\<lambda>context. reportFor helperNeverCalled),
      precompile = (\<lambda>context input.
        if context = ''trimmed'' then Inl ''TypeError'' else Inr (''compiled'', context)),
      transform = (\<lambda>coverageForFiles code. ''trimmed''),
      minify = (\<lambda>code. ''uglified'')\<rparr>"

definition originalThrows :: "(string, string) collaborators" where
  "originalThrows = trimmedThrows\<lparr>precompile := (\<lambda>context input. Inl ''TypeError'')\<rparr>"

section \<open>The loops, characterised\<close>

text \<open>
  Each loop goes on after an entry that does not match and after a matching entry whose
  count is not 0, so it acts exactly when some entry matches with count 0.
\<close>

lemma FunctionDeclaration_for_cases:
  "FunctionDeclaration_for coverage entries n =
     (if \<exists>(fnNum, fn) \<in> set entries.
           isSameFunction (Some n) (Some fn) \<and> f' coverage fnNum = Some 0
      then ReplaceWith (functionDeclaration (id' n) [] (blockStatement []))
      else Keep n)"
  by (induction entries) (auto simp: Let_def split: if_splits)

lemma FunctionExpression_for_cases:
  "FunctionExpression_for coverage entries n =
     (if \<exists>(fnNum, fn) \<in> set entries.
           isSameFunction (Some n) (Some fn) \<and> f' coverage fnNum = Some 0
      then ReplaceWith (functionExpression None [] (blockStatement []))
      else Keep n)"
  by (induction entries) (auto simp: Let_def split: if_splits)

lemma Statement_for_cases:
  "Statement_for coverage entries (Some n) =
     (if \<exists>(sNum, s) \<in> set entries.
           isSameStatement (loc n) (Some s) \<and> s' coverage sNum = Some 0
      then Remove
      else Keep (Some n))"
  by (induction entries) (auto simp: Let_def split: if_splits)

lemma Statement_cases:
  assumes "coverageForFiles this_filename = Some coverage"
  shows "Statement coverageForFiles this_filename \<lparr>node = Some st, parent_type = pt\<rparr> =
     (if \<exists>(sNum, s) \<in> set (statementMap coverage).
           isSameStatement (loc st) (Some s) \<and> s' coverage sNum = Some 0
      then Remove else Keep (Some st))"
  using assms by (simp only: Statement_def option.case Statement_for_cases path.simps)

lemma falsy_name_no_match: "\<not> truthy (name b) \<Longrightarrow> \<not> isSameFunction nodeA (Some b)"
  by (auto simp: isSameFunction_def split: option.splits)

lemma no_loc_no_match: "loc a = None \<Longrightarrow> \<not> isSameFunction (Some a) nodeB"
  by (simp add: isSameFunction_def)

lemma firstMatchingFunction_Some:
  "firstMatchingFunction n entries = Some (fnNum, fn) \<Longrightarrow>
     (fnNum, fn) \<in> set entries \<and> isSameFunction (Some n) (Some fn)"
  by (induction entries) (auto split: if_splits)

lemma firstMatchingStatement_Some:
  "firstMatchingStatement n entries = Some (sNum, s) \<Longrightarrow>
     (sNum, s) \<in> set entries \<and> isSameStatement (loc n) (Some s)"
  by (induction entries) (auto split: if_splits)

text \<open>
  So a node whose first matching descriptor has count 0 is acted on; the converse is
  what fails.
\<close>

lemma first_match_dead_function_stubbed:
  assumes "coverageForFiles this_filename = Some coverage"
    and "firstMatchingFunction (node path) (fnMap coverage) = Some (fnNum, fn)"
    and "f' coverage fnNum = Some 0"
  shows "FunctionDeclaration coverageForFiles this_filename path =
           ReplaceWith (functionDeclaration (id' (node path)) [] (blockStatement []))"
proof -
  have "\<exists>(k, d) \<in> set (fnMap coverage).
          isSameFunction (Some (node path)) (Some d) \<and> f' coverage k = Some 0"
    using firstMatchingFunction_Some [OF assms(2)] assms(3) by blast
  then have "FunctionDeclaration_for coverage (fnMap coverage) (node path) =
      ReplaceWith (functionDeclaration (id' (node path)) [] (blockStatement []))"
    by (simp only: FunctionDeclaration_for_cases if_True)
  then show ?thesis
    using assms(1) by (simp add: FunctionDeclaration_def)
qed

lemma first_match_dead_statement_removed:
  assumes "coverageForFiles this_filename = Some coverage"
    and "firstMatchingStatement st (statementMap coverage) = Some (sNum, s)"
    and "s' coverage sNum = Some 0"
  shows "Statement coverageForFiles this_filename \<lparr>node = Some st, parent_type = pt\<rparr> =
           Remove"
proof -
  have "\<exists>(k, d) \<in> set (statementMap coverage).
          isSameStatement (loc st) (Some d) \<and> s' coverage k = Some 0"
    using firstMatchingStatement_Some [OF assms(2)] assms(3) by blast
  moreover have "Statement coverageForFiles this_filename \<lparr>node = Some st, parent_type = pt\<rparr> =
      (if \<exists>(k, d) \<in> set (statementMap coverage).
            isSameStatement (loc st) (Some d) \<and> s' coverage k = Some 0
       then Remove else Keep (Some st))"
    using assms(1) by (rule Statement_cases)
  ultimately show ?thesis
    by (simp only: if_True)
qed

text \<open>The handlers and the visit of a statement, in terms of dead entries.\<close>

lemma Statement_dead:
  "Statement coverageForFiles this_filename \<lparr>node = Some n, parent_type = pt\<rparr> =
     (case coverageForFiles this_filename of
        None \<Rightarrow> Keep (Some n)
      | Some coverage \<Rightarrow>
          if hasDeadStatementEntry coverage n then Remove else Keep (Some n))"
  by (simp add: Statement_def Statement_for_cases hasDeadStatementEntry_def
      split: option.splits)

lemma FunctionDeclaration_dead:
  "FunctionDeclaration coverageForFiles this_filename \<lparr>node = d, parent_type = pt\<rparr> =
     (case coverageForFiles this_filename of
        None \<Rightarrow> Keep d
      | Some coverage \<Rightarrow>
          if hasDeadFunctionEntry coverage d
          then ReplaceWith (functionDeclaration (id' d) [] (blockStatement []))
          else Keep d)"
  by (simp add: FunctionDeclaration_def FunctionDeclaration_for_cases hasDeadFunctionEntry_def
      split: option.splits)

lemma visitStatement_Other:
  assumes "coverageForFiles this_filename = Some coverage"
  shows "visitStatement coverageForFiles this_filename sl (Other n) =
     (if hasDeadStatementEntry coverage n then path_remove sl else Some (Other n))"
  using assms by (simp add: Statement_dead)

lemma visitStatement_Declaration:
  assumes "coverageForFiles this_filename = Some coverage"
  shows "visitStatement coverageForFiles this_filename sl (Declaration d) =
     (if hasDeadFunctionEntry coverage d
      then Some (Declaration (functionDeclaration (id' d) [] (blockStatement [])))
      else if hasDeadStatementEntry coverage d then path_remove sl
      else Some (Declaration d))"
  using assms by (simp add: Statement_dead FunctionDeclaration_dead)

lemma no_loc_no_dead_entry:
  "loc n = None \<Longrightarrow> \<not> hasDeadStatementEntry coverage n"
  "loc d = None \<Longrightarrow> \<not> hasDeadFunctionEntry coverage d"
  by (simp_all add: hasDeadStatementEntry_def hasDeadFunctionEntry_def isSameStatement_def
      no_loc_no_match)

text \<open>
  What Babel queues again is left as it is: the stub of a declaration and the empty
  block have no location.
\<close>

lemma stub_is_left:
  "visitStatement coverageForFiles this_filename sl
     (Declaration (functionDeclaration i [] (blockStatement []))) =
     Some (Declaration (functionDeclaration i [] (blockStatement [])))"
proof -
  have l: "loc (functionDeclaration i [] (blockStatement []) :: ('a, 'b) function_node) = None"
    by (simp add: functionDeclaration_def)
  show ?thesis
    by (simp add: Statement_dead FunctionDeclaration_dead no_loc_no_dead_entry [OF l]
        split: option.splits)
qed

lemma emptyBlock_is_left:
  "visitStatement coverageForFiles this_filename sl EmptyBlock = Some EmptyBlock"
proof -
  have e: "loc emptyBlock = None"
    by (simp add: emptyBlock_def)
  show ?thesis
    by (simp add: Statement_dead no_loc_no_dead_entry(1) [OF e] split: option.splits)
qed

lemma visitStatement_body:
  assumes "coverageForFiles this_filename = Some coverage"
  shows "visitStatement coverageForFiles this_filename BodyElement st =
     (if deletedFromBody coverage st then None else Some (leftInBody coverage st))"
proof (cases st)
  case (Declaration d)
  then show ?thesis
    using assms by (simp add: Statement_dead FunctionDeclaration_dead path_remove_def)
next
  case (Other n)
  then show ?thesis
    using assms by (simp add: Statement_dead path_remove_def)
next
  case EmptyBlock
  then show ?thesis
    by (simp only: emptyBlock_is_left deletedFromBody.simps leftInBody.simps if_False)
qed

lemma visitBlockBody_filter:
  assumes "coverageForFiles this_filename = Some coverage"
  shows "visitBlockBody coverageForFiles this_filename stmts =
     map (leftInBody coverage) (filter (\<lambda>st. \<not> deletedFromBody coverage st) stmts)"
  using assms by (induction stmts) (simp_all add: visitStatement_body)

text \<open>
  When at most one descriptor satisfies the matcher for a statement, the statement has a
  dead entry exactly when its first matching descriptor has count 0.
\<close>

lemma firstMatchingStatement_None:
  "firstMatchingStatement n entries = None \<longleftrightarrow>
     (\<forall>(sNum, s) \<in> set entries. \<not> isSameStatement (loc n) (Some s))"
  by (induction entries) (auto split: if_splits)

lemma single_match_first_is_dead:
  assumes "\<And>e e'. e \<in> set (statementMap coverage) \<Longrightarrow> e' \<in> set (statementMap coverage) \<Longrightarrow>
             isSameStatement (loc n) (Some (snd e)) \<Longrightarrow>
             isSameStatement (loc n) (Some (snd e')) \<Longrightarrow> e = e'"
  shows "(\<exists>sNum s. firstMatchingStatement n (statementMap coverage) = Some (sNum, s) \<and>
            s' coverage sNum = Some 0) \<longleftrightarrow>
         hasDeadStatementEntry coverage n"
proof
  assume "\<exists>sNum s. firstMatchingStatement n (statementMap coverage) = Some (sNum, s) \<and>
            s' coverage sNum = Some 0"
  then obtain sNum s where
    f: "firstMatchingStatement n (statementMap coverage) = Some (sNum, s)"
    and z: "s' coverage sNum = Some 0"
    by blast
  from firstMatchingStatement_Some [OF f] z
  show "hasDeadStatementEntry coverage n"
    unfolding hasDeadStatementEntry_def by blast
next
  assume "hasDeadStatementEntry coverage n"
  then obtain sNum s where
    i: "(sNum, s) \<in> set (statementMap coverage)"
    and m: "isSameStatement (loc n) (Some s)"
    and z: "s' coverage sNum = Some 0"
    unfolding hasDeadStatementEntry_def by blast
  from i m have "firstMatchingStatement n (statementMap coverage) \<noteq> None"
    unfolding firstMatchingStatement_None by blast
  then obtain k d where f: "firstMatchingStatement n (statementMap coverage) = Some (k, d)"
    by (cases "firstMatchingStatement n (statementMap coverage)") auto
  from firstMatchingStatement_Some [OF f]
  have "(k, d) \<in> set (statementMap coverage)" and "isSameStatement (loc n) (Some d)"
    by simp_all
  with assms [of "(k, d)" "(sNum, s)"] i m have "(k, d) = (sNum, s)"
    by simp
  with f z show "\<exists>sNum s. firstMatchingStatement n (statementMap coverage) = Some (sNum, s) \<and>
            s' coverage sNum = Some 0"
    by simp
qed

lemma validate_throws:
  assumes "runInNewContext c trimmedCode = Inl err \<or>
           (\<exists>context2. runInNewContext c trimmedCode = Inr context2 \<and>
              precompile c context2 test = Inl err)"
  shows "validate c trimmedCode templateCompilerCode beforeTestOutput = [Error err]"
  using assms by (auto simp: validate_def)

section \<open>Which function nodes become stubs\<close>

text \<open>
  C1, as the code has it. For a function node whose file has a report, the node is
  replaced by a stub exactly when some descriptor of \<^verbatim>\<open>fnMap\<close> satisfies the matcher for
  the node and has a hit count of exactly 0; otherwise the node is kept. A function
  expression is matched after its name was stripped, and is kept in that form. A
  satisfying descriptor with another count does not end the scan.
\<close>

theorem function_stubbed_iff_dead_match:
  assumes "coverageForFiles this_filename = Some coverage"
  shows "FunctionDeclaration coverageForFiles this_filename path =
           (if \<exists>(fnNum, fn) \<in> set (fnMap coverage).
                 isSameFunction (Some (node path)) (Some fn) \<and> f' coverage fnNum = Some 0
            then ReplaceWith (functionDeclaration (id' (node path)) [] (blockStatement []))
            else Keep (node path)) \<and>
         FunctionExpression coverageForFiles this_filename path =
           (if \<exists>(fnNum, fn) \<in> set (fnMap coverage).
                 isSameFunction (Some (stripAssignedName path)) (Some fn) \<and>
                 f' coverage fnNum = Some 0
            then ReplaceWith (functionExpression None [] (blockStatement []))
            else Keep (stripAssignedName path))"
  using assms
  by (simp only: FunctionDeclaration_def FunctionExpression_def Let_def option.case
        FunctionDeclaration_for_cases FunctionExpression_for_cases simp_thms)

text \<open>
  The theorem at two inputs: the first of the two callbacks of line 7, and the
  declaration of \<^verbatim>\<open>helper\<close> that was never called.
\<close>

theorem function_stubbed_iff_dead_match_witness:
  "reportFor twoCallbacks ''ember-template-compiler.js'' = Some twoCallbacks \<and>
   FunctionExpression (reportFor twoCallbacks) ''ember-template-compiler.js''
       \<lparr>node = firstCallback, parent_type = ''CallExpression''\<rparr> =
     ReplaceWith (functionExpression None [] (blockStatement [])) \<and>
   FunctionDeclaration (reportFor helperNeverCalled) ''ember-template-compiler.js''
       \<lparr>node = helperDeclaration, parent_type = ''Program''\<rparr> =
     ReplaceWith (functionDeclaration (Some \<lparr>ident_name = ''helper''\<rparr>) [] (blockStatement []))"
proof -
  have r1: "reportFor twoCallbacks ''ember-template-compiler.js'' = Some twoCallbacks"
    by (simp add: reportFor_def)
  have r2: "reportFor helperNeverCalled ''ember-template-compiler.js'' = Some helperNeverCalled"
    by (simp add: reportFor_def)
  note a = function_stubbed_iff_dead_match
      [of "reportFor twoCallbacks" "''ember-template-compiler.js''" twoCallbacks
          "\<lparr>node = firstCallback, parent_type = ''CallExpression''\<rparr>", OF r1]
  note b = function_stubbed_iff_dead_match
      [of "reportFor helperNeverCalled" "''ember-template-compiler.js''" helperNeverCalled
          "\<lparr>node = helperDeclaration, parent_type = ''Program''\<rparr>", OF r2]
  have e1: "FunctionExpression (reportFor twoCallbacks) ''ember-template-compiler.js''
       \<lparr>node = firstCallback, parent_type = ''CallExpression''\<rparr> =
     ReplaceWith (functionExpression None [] (blockStatement []))"
    using a
    by (simp add: twoCallbacks_def firstCallback_def anonymous_0_def anonymous_1_def
        stripAssignedName_def isSameFunction_def truthy_def)
  have e2: "FunctionDeclaration (reportFor helperNeverCalled) ''ember-template-compiler.js''
       \<lparr>node = helperDeclaration, parent_type = ''Program''\<rparr> =
     ReplaceWith (functionDeclaration (Some \<lparr>ident_name = ''helper''\<rparr>) [] (blockStatement []))"
    using b
    by (simp add: helperNeverCalled_def helperDeclaration_def helperDescriptor_def
        isSameFunction_def truthy_def span_3_5_def)
  show ?thesis using r1 e1 e2 by simp
qed

text \<open>
  C1 as it was stated does not hold. For the first callback of line 7 the first
  descriptor that satisfies the matcher is entry 0, whose count is 1; the scan goes on to
  entry 1, which satisfies the matcher too and has count 0, and the callback that was
  called is replaced by a stub.
\<close>

theorem first_match_live_yet_stubbed:
  "firstMatchingFunction firstCallback (fnMap twoCallbacks) = Some (0, anonymous_0) \<and>
   f' twoCallbacks 0 = Some 1 \<and>
   FunctionExpression (reportFor twoCallbacks) ''ember-template-compiler.js''
       \<lparr>node = firstCallback, parent_type = ''CallExpression''\<rparr> =
     ReplaceWith (functionExpression None [] (blockStatement []))"
  by (simp add: FunctionExpression_def reportFor_def twoCallbacks_def firstCallback_def
      anonymous_0_def anonymous_1_def stripAssignedName_def isSameFunction_def truthy_def)

section \<open>The matchers\<close>

text \<open>
  C2, as the code has it. The function matcher holds for a node and a descriptor exactly
  when the node has a location, the descriptor's name is present and not empty, the two
  start lines are equal, and either the node has an identifier whose name is the
  descriptor's name or the two end lines are equal.
\<close>

theorem isSameFunction_iff:
  "isSameFunction (Some a) (Some b) \<longleftrightarrow>
     (\<exists>la. loc a = Some la \<and> truthy (name b) \<and>
        line (start la) = line (start (fn_loc b)) \<and>
        ((\<exists>i. id' a = Some i \<and> name b = Some (ident_name i)) \<or>
         line (end' la) = line (end' (fn_loc b))))"
  by (auto simp: isSameFunction_def split: option.splits)

text \<open>
  C2 as it was stated, without the test of the descriptor's name, does not hold: the
  anonymous function of lines 3 to 5 and the nameless descriptor of the same lines agree
  in start line and end line, and the matcher rejects them.
\<close>

theorem lines_agree_yet_no_match:
  "loc anonymousFunction = Some span_3_5 \<and>
   line (start span_3_5) = line (start (fn_loc namelessDescriptor)) \<and>
   line (end' span_3_5) = line (end' (fn_loc namelessDescriptor)) \<and>
   \<not> isSameFunction (Some anonymousFunction) (Some namelessDescriptor)"
  by (simp add: anonymousFunction_def namelessDescriptor_def isSameFunction_def truthy_def)

text \<open>
  C3. For every statement location and every statement descriptor, the statement
  matcher holds exactly when the start line, the end line and the start column of the
  two locations are equal.
\<close>

theorem isSameStatement_iff:
  "isSameStatement (Some locA) (Some locB) \<longleftrightarrow>
     line (start locA) = line (start locB) \<and>
     line (end' locA) = line (end' locB) \<and>
     column (start locA) = column (start locB)"
  by (simp add: isSameStatement_def)

section \<open>Nodes of a file without a report\<close>

text \<open>
  C4, as the code has it. When the file has no report, a function declaration and a
  statement are kept as they are: nothing is replaced, removed or assigned. A function
  expression is neither replaced nor removed; it is kept as it is when it has no name
  or its parent is not an assignment expression, and otherwise it is kept with its
  \<^verbatim>\<open>id\<close> set to \<^verbatim>\<open>null\<close> and nothing else changed.
\<close>

theorem no_report_keeps_node:
  assumes "coverageForFiles this_filename = None"
  shows "FunctionDeclaration coverageForFiles this_filename path = Keep (node path) \<and>
         Statement coverageForFiles this_filename spath = Keep (node spath) \<and>
         FunctionExpression coverageForFiles this_filename path =
           Keep (if id' (node path) \<noteq> None \<and> parent_type path = ''AssignmentExpression''
                 then (node path)\<lparr>id' := None\<rparr> else node path)"
  using assms
  by (simp add: FunctionDeclaration_def Statement_def FunctionExpression_def
      stripAssignedName_def)

theorem no_report_keeps_node_witness:
  "noReports ''ember-template-compiler.js'' = None \<and>
   FunctionDeclaration noReports ''ember-template-compiler.js''
       \<lparr>node = helperDeclaration, parent_type = ''Program''\<rparr> = Keep helperDeclaration \<and>
   Statement noReports ''ember-template-compiler.js''
       \<lparr>node = Some statement_10, parent_type = ''BlockStatement''\<rparr> = Keep (Some statement_10) \<and>
   FunctionExpression noReports ''ember-template-compiler.js''
       \<lparr>node = firstCallback, parent_type = ''CallExpression''\<rparr> = Keep firstCallback"
proof -
  have h: "noReports ''ember-template-compiler.js'' = None"
    by (simp add: noReports_def)
  have d: "FunctionDeclaration noReports ''ember-template-compiler.js''
       \<lparr>node = helperDeclaration, parent_type = ''Program''\<rparr> = Keep helperDeclaration \<and>
     Statement noReports ''ember-template-compiler.js''
       \<lparr>node = Some statement_10, parent_type = ''BlockStatement''\<rparr> = Keep (Some statement_10)"
    using no_report_keeps_node
      [where coverageForFiles = noReports and this_filename = "''ember-template-compiler.js''"
         and path = "\<lparr>node = helperDeclaration, parent_type = ''Program''\<rparr>"
         and spath = "\<lparr>node = Some statement_10, parent_type = ''BlockStatement''\<rparr>", OF h]
    by simp
  have e: "FunctionExpression noReports ''ember-template-compiler.js''
       \<lparr>node = firstCallback, parent_type = ''CallExpression''\<rparr> = Keep firstCallback"
    using no_report_keeps_node
      [where coverageForFiles = noReports and this_filename = "''ember-template-compiler.js''"
         and path = "\<lparr>node = firstCallback, parent_type = ''CallExpression''\<rparr>"
         and spath = "\<lparr>node = Some statement_10, parent_type = ''BlockStatement''\<rparr>", OF h]
    by simp
  show ?thesis using h d e by simp
qed

text \<open>
  C4 as it was stated, for function expressions too, does not hold: with no report at
  all, the function expression of \<^verbatim>\<open>exports.run = function run() {}\<close> loses its name.
\<close>

theorem no_report_yet_name_stripped:
  "noReports ''ember-template-compiler.js'' = None \<and>
   FunctionExpression noReports ''ember-template-compiler.js'' assignedRun \<noteq>
     Keep (node assignedRun) \<and>
   FunctionExpression noReports ''ember-template-compiler.js'' assignedRun =
     Keep ((node assignedRun)\<lparr>id' := None\<rparr>)"
  by (simp add: noReports_def FunctionExpression_def stripAssignedName_def assignedRun_def)

section \<open>Stubs and deletions\<close>

text \<open>
  C5. A function declaration that carries an identifier, and for which some descriptor
  of the report satisfies the matcher with a hit count of 0 (in particular when the
  first satisfying descriptor is such a one), is replaced by a function declaration
  with the same identifier, no parameters and an empty body.
\<close>

theorem dead_declaration_keeps_name:
  assumes "coverageForFiles this_filename = Some coverage"
    and "(fnNum, fn) \<in> set (fnMap coverage)"
    and "isSameFunction (Some (node path)) (Some fn)"
    and "f' coverage fnNum = Some 0"
    and "id' (node path) = Some i"
  shows "FunctionDeclaration coverageForFiles this_filename path =
           ReplaceWith \<lparr>node_type = ''FunctionDeclaration'', loc = None,
                         id' = Some i, params = [], body = Block None [],
                         generator = False, async = False\<rparr>"
proof -
  have "\<exists>(k, d) \<in> set (fnMap coverage).
          isSameFunction (Some (node path)) (Some d) \<and> f' coverage k = Some 0"
    using assms(2-4) by blast
  then have "FunctionDeclaration_for coverage (fnMap coverage) (node path) =
      ReplaceWith (functionDeclaration (id' (node path)) [] (blockStatement []))"
    by (simp only: FunctionDeclaration_for_cases if_True)
  then show ?thesis
    using assms(1,5)
    by (simp add: FunctionDeclaration_def functionDeclaration_def blockStatement_def)
qed

text \<open>The declaration of \<^verbatim>\<open>helper\<close>, never called, becomes \<^verbatim>\<open>function helper() {}\<close>.\<close>

theorem dead_declaration_keeps_name_witness:
  "reportFor helperNeverCalled ''ember-template-compiler.js'' = Some helperNeverCalled \<and>
   (0, helperDescriptor) \<in> set (fnMap helperNeverCalled) \<and>
   isSameFunction (Some helperDeclaration) (Some helperDescriptor) \<and>
   f' helperNeverCalled 0 = Some 0 \<and>
   id' helperDeclaration = Some \<lparr>ident_name = ''helper''\<rparr> \<and>
   FunctionDeclaration (reportFor helperNeverCalled) ''ember-template-compiler.js''
       \<lparr>node = helperDeclaration, parent_type = ''Program''\<rparr> =
     ReplaceWith \<lparr>node_type = ''FunctionDeclaration'', loc = None,
                   id' = Some \<lparr>ident_name = ''helper''\<rparr>, params = [], body = Block None [],
                   generator = False, async = False\<rparr>"
proof -
  let ?p = "\<lparr>node = helperDeclaration, parent_type = ''Program''\<rparr>"
  have h1: "reportFor helperNeverCalled ''ember-template-compiler.js'' = Some helperNeverCalled"
    by (simp add: reportFor_def)
  have h2: "(0, helperDescriptor) \<in> set (fnMap helperNeverCalled)"
    by (simp add: helperNeverCalled_def)
  have h3: "isSameFunction (Some (node ?p)) (Some helperDescriptor)"
    by (simp add: isSameFunction_def helperDeclaration_def helperDescriptor_def truthy_def)
  have h4: "f' helperNeverCalled 0 = Some 0"
    by (simp add: helperNeverCalled_def)
  have h5: "id' (node ?p) = Some \<lparr>ident_name = ''helper''\<rparr>"
    by (simp add: helperDeclaration_def)
  show ?thesis
    using h1 h2 h3 h4 h5
      dead_declaration_keeps_name
        [where coverageForFiles = "reportFor helperNeverCalled"
           and this_filename = "''ember-template-compiler.js''" and path = ?p,
         OF h1 h2 h3 h4 h5]
    by simp
qed

text \<open>
  C6, as the code has it. The \<^verbatim>\<open>Statement\<close> handler never replaces a statement: it calls
  \<^verbatim>\<open>path.remove()\<close> on a statement for which some descriptor of \<^verbatim>\<open>statementMap\<close>
  satisfies the matcher with a hit count of 0, and leaves every other statement. An
  element of a block's body is deleted by that; the consequent of an \<^verbatim>\<open>if\<close> statement and
  the body of a \<^verbatim>\<open>while\<close> loop are not deleted, an empty block stands in their place. A
  function declaration with a dead function entry is replaced by its stub before the
  \<^verbatim>\<open>Statement\<close> handler runs, and stays. So of the \<open>N\<close> elements of a body, \<open>M\<close> of
  them deleted, exactly \<open>N - M\<close> are left, in their order, each as it was or as its
  stub.
\<close>

theorem dead_statement_removed:
  fixes stmts :: "('p, 's, 'z) statement list"
  assumes "coverageForFiles this_filename = Some coverage"
  shows "visitStatement coverageForFiles this_filename BodyElement (Other n) =
           (if hasDeadStatementEntry coverage n then None
            else Some (Other n :: ('p, 's, 'z) statement)) \<and>
         visitStatement coverageForFiles this_filename IfConsequent (Other n) =
           (if hasDeadStatementEntry coverage n then Some EmptyBlock
            else Some (Other n :: ('p, 's, 'z) statement)) \<and>
         visitStatement coverageForFiles this_filename WhileBody (Other n) =
           (if hasDeadStatementEntry coverage n then Some EmptyBlock
            else Some (Other n :: ('p, 's, 'z) statement)) \<and>
         visitStatement coverageForFiles this_filename BodyElement (Declaration d) =
           (if hasDeadFunctionEntry coverage d
            then Some (Declaration (functionDeclaration (id' d) [] (blockStatement [])))
            else if hasDeadStatementEntry coverage d then None
            else Some (Declaration d :: ('p, 's, 'z) statement)) \<and>
         visitBlockBody coverageForFiles this_filename stmts =
           map (leftInBody coverage) (filter (\<lambda>st. \<not> deletedFromBody coverage st) stmts) \<and>
         length (visitBlockBody coverageForFiles this_filename stmts) =
           length stmts - length (filter (deletedFromBody coverage) stmts)"
proof -
  have o: "visitStatement coverageForFiles this_filename sl (Other n) =
      (if hasDeadStatementEntry coverage n then path_remove sl
       else Some (Other n :: ('p, 's, 'z) statement))" for sl
    using assms by (rule visitStatement_Other)
  have d: "visitStatement coverageForFiles this_filename BodyElement (Declaration d) =
           (if hasDeadFunctionEntry coverage d
            then Some (Declaration (functionDeclaration (id' d) [] (blockStatement [])))
            else if hasDeadStatementEntry coverage d then None
            else Some (Declaration d :: ('p, 's, 'z) statement))"
  proof -
    have "visitStatement coverageForFiles this_filename BodyElement (Declaration d) =
           (if hasDeadFunctionEntry coverage d
            then Some (Declaration (functionDeclaration (id' d) [] (blockStatement [])))
            else if hasDeadStatementEntry coverage d then path_remove BodyElement
            else Some (Declaration d :: ('p, 's, 'z) statement))"
      using assms by (rule visitStatement_Declaration)
    then show ?thesis by (simp only: path_remove_def slot.case)
  qed
  have b: "visitBlockBody coverageForFiles this_filename stmts =
           map (leftInBody coverage) (filter (\<lambda>st. \<not> deletedFromBody coverage st) stmts)"
    using assms by (rule visitBlockBody_filter)
  have "length (filter (deletedFromBody coverage) stmts) +
        length (filter (\<lambda>st. \<not> deletedFromBody coverage st) stmts) = length stmts"
    by (rule sum_length_filter_compl)
  then have c: "length (filter (\<lambda>st. \<not> deletedFromBody coverage st) stmts) =
      length stmts - length (filter (deletedFromBody coverage) stmts)"
    by linarith
  show ?thesis
    using o [of BodyElement] o [of IfConsequent] o [of WhileBody] d b c
    by (simp add: path_remove_def)
qed


text \<open>
  Of the three statements, the first is deleted, the declaration is left as its stub
  and the last is left as it is.
\<close>

theorem dead_statement_removed_witness:
  "reportFor line10Dead ''ember-template-compiler.js'' = Some line10Dead \<and>
   visitBlockBody (reportFor line10Dead) ''ember-template-compiler.js'' threeStatements =
     [Declaration (functionDeclaration (Some \<lparr>ident_name = ''helper''\<rparr>) [] (blockStatement [])),
      Other statement_11] \<and>
   length (visitBlockBody (reportFor line10Dead) ''ember-template-compiler.js'' threeStatements) =
     3 - 1"
proof -
  have h: "reportFor line10Dead ''ember-template-compiler.js'' = Some line10Dead"
    by (simp add: reportFor_def)
  note t = dead_statement_removed
      [where coverageForFiles = "reportFor line10Dead"
         and this_filename = "''ember-template-compiler.js''"
         and stmts = threeStatements and n = statement_10 and d = helperDeclaration, OF h]
  have v: "visitBlockBody (reportFor line10Dead) ''ember-template-compiler.js'' threeStatements =
      map (leftInBody line10Dead)
        (filter (\<lambda>st. \<not> deletedFromBody line10Dead st) threeStatements)"
    using t by (rule conjunct1 [OF conjunct2 [OF conjunct2 [OF conjunct2 [OF conjunct2]]]])
  have s10: "hasDeadStatementEntry line10Dead statement_10"
    by (simp add: hasDeadStatementEntry_def line10Dead_def statement_10_def isSameStatement_def)
  have s11: "\<not> hasDeadStatementEntry line10Dead statement_11"
    by (simp add: hasDeadStatementEntry_def line10Dead_def statement_11_def isSameStatement_def)
  have fh: "hasDeadFunctionEntry line10Dead helperDeclaration"
    by (simp add: hasDeadFunctionEntry_def line10Dead_def helperDeclaration_def
        helperDescriptor_def isSameFunction_def truthy_def)
  have i: "id' helperDeclaration = Some \<lparr>ident_name = ''helper''\<rparr>"
    by (simp add: helperDeclaration_def)
  have m: "map (leftInBody line10Dead)
        (filter (\<lambda>st. \<not> deletedFromBody line10Dead st) threeStatements) =
     [Declaration (functionDeclaration (Some \<lparr>ident_name = ''helper''\<rparr>) [] (blockStatement [])),
      Other statement_11]"
    by (simp add: threeStatements_def s10 s11 fh i)
  have e: "visitBlockBody (reportFor line10Dead) ''ember-template-compiler.js'' threeStatements =
     [Declaration (functionDeclaration (Some \<lparr>ident_name = ''helper''\<rparr>) [] (blockStatement [])),
      Other statement_11]"
    using v m by (rule trans)
  show ?thesis using h e by simp
qed


text \<open>
  C6 as it was stated, with every dead statement deleted from its block rather than
  replaced, does not hold. The consequent of \<^verbatim>\<open>if (ready) start();\<close> was never executed:
  its first and only matching descriptor has count 0. It is not deleted from a block:
  the empty block takes its place, and the result is \<^verbatim>\<open>if (ready) {}\<close>.
\<close>

theorem dead_consequent_becomes_empty_block:
  "firstMatchingStatement consequent_12 (statementMap ifNeverTaken) =
     Some (1, \<lparr>start = \<lparr>line = 12, column = 13\<rparr>, end' = \<lparr>line = 12, column = 21\<rparr>\<rparr>) \<and>
   s' ifNeverTaken 1 = Some 0 \<and>
   visitStatement (reportFor ifNeverTaken) ''ember-template-compiler.js'' IfConsequent
     (Other consequent_12 :: (string, string, string) statement) = Some EmptyBlock"
  by (simp add: Statement_def reportFor_def ifNeverTaken_def consequent_12_def
      isSameStatement_def path_remove_def)

text \<open>
  C7. Stripping the name is a no-op on a function expression that has none: the node,
  its \<^verbatim>\<open>id\<close> included, is what it was.
\<close>

theorem stripAssignedName_anonymous:
  "id' (node path) = None \<Longrightarrow> stripAssignedName path = node path"
  by (simp add: stripAssignedName_def)

theorem stripAssignedName_anonymous_witness:
  "id' (node \<lparr>node = firstCallback, parent_type = ''AssignmentExpression''\<rparr>) = None \<and>
   stripAssignedName \<lparr>node = firstCallback, parent_type = ''AssignmentExpression''\<rparr> =
     firstCallback"
proof -
  have h: "id' (node \<lparr>node = firstCallback, parent_type = ''AssignmentExpression''\<rparr>) = None"
    by (simp add: firstCallback_def)
  show ?thesis using h stripAssignedName_anonymous [OF h] by simp
qed

section \<open>Exceptions while the programs run\<close>

text \<open>
  C8, as the code has it. When the instrumented original has run and answered, and the
  trimmed program throws, either when it is run or when its \<^verbatim>\<open>precompile\<close> is called,
  then the exception is caught and passed to \<^verbatim>\<open>console.error\<close>, the run goes on to
  its end, and \<^verbatim>\<open>trimmed.js\<close>, written before, is followed by \<^verbatim>\<open>uglified.js\<close>.
\<close>

theorem trimmed_exception_is_caught:
  assumes "runInNewContext c (instrument c (readFileSync c (filename dirname))) = Inr context"
    and "precompile c context test = Inr (beforeTestOutput, context')"
    and "trimmedCode = transform c (coverage_of c context') (readFileSync c (filename dirname))"
    and "runInNewContext c trimmedCode = Inl err \<or>
         (\<exists>context2. runInNewContext c trimmedCode = Inr context2 \<and>
            precompile c context2 test = Inl err)"
  shows "build c dirname =
           ([WriteFile ''original.js'' (readFileSync c (filename dirname)),
             WriteFile ''instrumented.js'' (instrument c (readFileSync c (filename dirname))),
             WriteFile ''trimmed.js'' trimmedCode,
             Error err,
             WriteFile ''uglified.js'' (minify c trimmedCode)], None)"
proof -
  have v: "validate c trimmedCode (readFileSync c (filename dirname)) beforeTestOutput =
      [Error err]"
    using assms(4) by (rule validate_throws)
  show ?thesis
    using assms(1,2) v
    by (simp add: build_def Let_def assms(3) [symmetric])
qed

theorem trimmed_exception_is_caught_witness:
  "runInNewContext trimmedThrows ''instrumented'' = Inr ''instrumented'' \<and>
   precompile trimmedThrows ''instrumented'' test = Inr (''compiled'', ''instrumented'') \<and>
   runInNewContext trimmedThrows ''trimmed'' = Inr ''trimmed'' \<and>
   precompile trimmedThrows ''trimmed'' test = Inl ''TypeError'' \<and>
   build trimmedThrows ''/repo'' =
     ([WriteFile ''original.js'' ''original'',
       WriteFile ''instrumented.js'' ''instrumented'',
       WriteFile ''trimmed.js'' ''trimmed'',
       Error ''TypeError'',
       WriteFile ''uglified.js'' ''uglified''], None)"
proof -
  have h1: "runInNewContext trimmedThrows
      (instrument trimmedThrows (readFileSync trimmedThrows (filename ''/repo''))) =
      Inr ''instrumented''"
    by (simp add: trimmedThrows_def)
  have h2: "precompile trimmedThrows ''instrumented'' test = Inr (''compiled'', ''instrumented'')"
    by (simp add: trimmedThrows_def)
  have h3: "''trimmed'' = transform trimmedThrows (coverage_of trimmedThrows ''instrumented'')
      (readFileSync trimmedThrows (filename ''/repo''))"
    by (simp add: trimmedThrows_def)
  have h4: "runInNewContext trimmedThrows ''trimmed'' = Inl ''TypeError'' \<or>
         (\<exists>context2. runInNewContext trimmedThrows ''trimmed'' = Inr context2 \<and>
            precompile trimmedThrows context2 test = Inl ''TypeError'')"
    by (simp add: trimmedThrows_def)
  show ?thesis
    using trimmed_exception_is_caught [OF h1 h2 h3 h4]
    by (simp add: trimmedThrows_def)
qed

text \<open>
  C8 as it was stated, for the original program too, does not hold. The instrumented
  original is run, and its \<^verbatim>\<open>precompile\<close> called, before the \<^verbatim>\<open>try\<close> block: when that
  call throws, nothing catches the exception, the run ends with it, and neither
  \<^verbatim>\<open>trimmed.js\<close> nor \<^verbatim>\<open>uglified.js\<close> is written.
\<close>

theorem original_exception_is_not_caught:
  "runInNewContext originalThrows ''instrumented'' = Inr ''instrumented'' \<and>
   precompile originalThrows ''instrumented'' test = Inl ''TypeError'' \<and>
   build originalThrows ''/repo'' =
     ([WriteFile ''original.js'' ''original'',
       WriteFile ''instrumented.js'' ''instrumented''], Some ''TypeError'')"
  by (simp add: build_def originalThrows_def trimmedThrows_def)

section \<open>Nodes without a location, descriptors without a name\<close>

text \<open>
  C9, as the code has it. For a node without a location both matchers reject every
  descriptor, whatever the report. A function declaration and a statement without a
  location are kept as they are. A function expression without a location is neither
  replaced nor removed: it is kept as it is, or, when it has a name and its parent is an
  assignment expression, with its \<^verbatim>\<open>id\<close> set to \<^verbatim>\<open>null\<close>. On these paths the code
  reads nothing that it has not tested, so there is nothing that could throw.
\<close>

theorem no_loc_no_rewrite:
  assumes "loc (node path) = None" and "loc st = None"
  shows "\<not> isSameFunction (Some (node path)) nodeB \<and>
         \<not> isSameStatement (loc st) locB \<and>
         FunctionDeclaration coverageForFiles this_filename path = Keep (node path) \<and>
         Statement coverageForFiles this_filename \<lparr>node = Some st, parent_type = pt\<rparr> =
           Keep (Some st) \<and>
         FunctionExpression coverageForFiles this_filename path =
           Keep (if id' (node path) \<noteq> None \<and> parent_type path = ''AssignmentExpression''
                 then (node path)\<lparr>id' := None\<rparr> else node path)"
proof -
  have m: "\<not> isSameFunction (Some (node path)) nodeB'" for nodeB'
    using assms(1) by (rule no_loc_no_match)
  have l: "loc (stripAssignedName path) = None"
    using assms(1) by (simp add: stripAssignedName_def)
  have m': "\<not> isSameFunction (Some (stripAssignedName path)) nodeB'" for nodeB'
    using l by (rule no_loc_no_match)
  have s: "\<not> isSameStatement (loc st) locB'" for locB'
    using assms(2) by (simp add: isSameStatement_def)
  have d: "FunctionDeclaration coverageForFiles this_filename path = Keep (node path)"
    using m
    by (simp add: FunctionDeclaration_def FunctionDeclaration_for_cases split: option.splits)
  have e: "FunctionExpression coverageForFiles this_filename path =
      Keep (stripAssignedName path)"
    using m'
    by (simp add: FunctionExpression_def Let_def FunctionExpression_for_cases
        split: option.splits)
  have t: "Statement coverageForFiles this_filename \<lparr>node = Some st, parent_type = pt\<rparr> =
           Keep (Some st)"
    using s by (simp add: Statement_def Statement_for_cases split: option.splits)
  show ?thesis
    using m s d t e by (simp add: stripAssignedName_def)
qed

theorem no_loc_no_rewrite_witness:
  "loc (node assignedRunNoLoc) = None \<and> loc (statement_10\<lparr>loc := None\<rparr>) = None \<and>
   \<not> isSameFunction (Some (node assignedRunNoLoc)) (Some helperDescriptor) \<and>
   FunctionDeclaration (reportFor helperNeverCalled) ''ember-template-compiler.js''
       assignedRunNoLoc = Keep (node assignedRunNoLoc) \<and>
   Statement (reportFor helperNeverCalled) ''ember-template-compiler.js''
       \<lparr>node = Some (statement_10\<lparr>loc := None\<rparr>), parent_type = ''BlockStatement''\<rparr> =
     Keep (Some (statement_10\<lparr>loc := None\<rparr>))"
proof -
  have h1: "loc (node assignedRunNoLoc) = None"
    by (simp add: assignedRunNoLoc_def)
  have h2: "loc (statement_10\<lparr>loc := None\<rparr>) = None"
    by simp
  show ?thesis
    using h1 h2 no_loc_no_rewrite
      [where path = assignedRunNoLoc and st = "statement_10\<lparr>loc := None\<rparr>"
         and nodeB = "Some helperDescriptor"
         and coverageForFiles = "reportFor helperNeverCalled"
         and this_filename = "''ember-template-compiler.js''"
         and pt = "''BlockStatement''", OF h1 h2]
    by simp
qed

text \<open>
  C9 as it was stated, with every such node left untouched, does not hold: the function
  expression of \<^verbatim>\<open>exports.run = function run() {}\<close>, taken without its location, loses
  its name.
\<close>

theorem no_loc_yet_name_stripped:
  "loc (node assignedRunNoLoc) = None \<and>
   FunctionExpression (reportFor helperNeverCalled) ''ember-template-compiler.js''
       assignedRunNoLoc \<noteq> Keep (node assignedRunNoLoc) \<and>
   FunctionExpression (reportFor helperNeverCalled) ''ember-template-compiler.js''
       assignedRunNoLoc = Keep ((node assignedRunNoLoc)\<lparr>id' := None\<rparr>)"
  by (simp add: FunctionExpression_def reportFor_def helperNeverCalled_def
      stripAssignedName_def assignedRunNoLoc_def assignedRun_def isSameFunction_def)

text \<open>
  C10. A descriptor whose name is absent or empty is rejected by the function matcher
  for every node, whatever the lines, and it never makes a loop act: with the entry
  taken out of the table, wherever it stood, each loop gives the same result.
\<close>

theorem falsy_name_never_matches:
  assumes "\<not> truthy (name b)"
  shows "\<not> isSameFunction nodeA (Some b) \<and>
         FunctionDeclaration_for coverage (before @ (fnNum, b) # after) n =
           FunctionDeclaration_for coverage (before @ after) n \<and>
         FunctionExpression_for coverage (before @ (fnNum, b) # after) n =
           FunctionExpression_for coverage (before @ after) n"
proof -
  have "\<not> isSameFunction nodeA (Some b)"
    using assms by (rule falsy_name_no_match)
  moreover have "FunctionDeclaration_for coverage (before @ (fnNum, b) # after) n =
           FunctionDeclaration_for coverage (before @ after) n"
    using falsy_name_no_match [OF assms, of "Some n"]
    by (simp add: FunctionDeclaration_for_cases)
  moreover have "FunctionExpression_for coverage (before @ (fnNum, b) # after) n =
           FunctionExpression_for coverage (before @ after) n"
    using falsy_name_no_match [OF assms, of "Some n"]
    by (simp add: FunctionExpression_for_cases)
  ultimately show ?thesis by simp
qed

text \<open>
  The nameless descriptor of lines 3 to 5 has count 0 in this report and agrees with the
  anonymous function in both lines; the function is kept.
\<close>

theorem falsy_name_never_matches_witness:
  "\<not> truthy (name namelessDescriptor) \<and>
   f' helperNeverCalled 0 = Some 0 \<and>
   \<not> isSameFunction (Some anonymousFunction) (Some namelessDescriptor) \<and>
   FunctionExpression_for helperNeverCalled [(0, namelessDescriptor)] anonymousFunction =
     Keep anonymousFunction \<and>
   FunctionDeclaration_for helperNeverCalled [(0, namelessDescriptor)] anonymousFunction =
     Keep anonymousFunction"
proof -
  have h: "\<not> truthy (name namelessDescriptor)"
    by (simp add: namelessDescriptor_def truthy_def)
  have c: "f' helperNeverCalled 0 = Some 0"
    by (simp add: helperNeverCalled_def)
  show ?thesis
    using h c falsy_name_never_matches [OF h, of "Some anonymousFunction" helperNeverCalled
        "[]" 0 "[]" anonymousFunction]
    by simp
qed

end
